theory Spec2Isabelle
  imports Complex_Main "HOL-Library.Monad_Syntax"
begin

section \<open>Errors\<close>

text \<open>
  The exceptions the modelled part of \<^verbatim>\<open>trend.py\<close> can raise.  \<open>IndexError\<close> comes from
  \<^verbatim>\<open>current_dates[-1]\<close> and \<^verbatim>\<open>y_axis[-2]\<close>, \<open>ValueError\<close> from the \<^verbatim>\<open>datetime\<close>
  constructor and from \<^verbatim>\<open>float\<close>/\<^verbatim>\<open>int\<close>, \<open>OverflowError\<close> from \<^verbatim>\<open>datetime + timedelta\<close>,
  \<open>KeyError\<close> and \<open>TypeError\<close> from dictionary access, \<open>FileNotFoundError\<close> from
  \<^verbatim>\<open>open(path, 'r')\<close>; \<open>RenderError\<close> stands for any failure of the statistics and
  plotting libraries, which are outside the repository.
\<close>

datatype error =
  IndexError | ValueError | OverflowError | KeyError | TypeError
  | FileNotFoundError | RenderError

section \<open>Text: digits, whitespace, decimal numerals\<close>

text \<open>
  Strings are modelled as lists of 8-bit characters; the regular expression classes
  \<^verbatim>\<open>\d\<close> and \<^verbatim>\<open>\s\<close> are taken on ASCII text.
\<close>

definition is_digit :: "char \<Rightarrow> bool" where
  "is_digit c = (c \<in> set ''0123456789'')"

definition is_space :: "char \<Rightarrow> bool" where
  "is_space c =
     (c \<in> set [CHR 0x09, CHR 0x0A, CHR 0x0B, CHR 0x0C, CHR 0x0D,
                CHR 0x1C, CHR 0x1D, CHR 0x1E, CHR 0x1F, CHR 0x20])"

definition newline :: char where
  "newline = CHR 0x0A"

definition digit_char :: "nat \<Rightarrow> char" where
  "digit_char n = ''0123456789'' ! n"

definition digit_val :: "char \<Rightarrow> nat" where
  "digit_val c = of_char c - 48"

text \<open>\<^verbatim>\<open>str(n)\<close> for a non-negative integer, and \<^verbatim>\<open>str(i)\<close> for any integer.\<close>

fun show_nat :: "nat \<Rightarrow> string" where
  "show_nat n = (if n < 10 then [digit_char n] else show_nat (n div 10) @ [digit_char (n mod 10)])"

declare show_nat.simps [simp del]

definition show_int :: "int \<Rightarrow> string" where
  "show_int i = (if i < 0 then CHR ''-'' # show_nat (nat (- i)) else show_nat (nat i))"

text \<open>\<^verbatim>\<open>int(s)\<close> on a string of decimal digits.\<close>

definition int_of_digits :: "string \<Rightarrow> nat" where
  "int_of_digits s = foldl (\<lambda>acc c. 10 * acc + digit_val c) 0 s"

text \<open>Zero padding to a minimal width, as \<^verbatim>\<open>strftime\<close> does for \<^verbatim>\<open>%Y\<close>, \<^verbatim>\<open>%m\<close>, \<^verbatim>\<open>%d\<close>.\<close>

definition zero_pad :: "nat \<Rightarrow> nat \<Rightarrow> string" where
  "zero_pad w n = replicate (w - length (show_nat n)) CHR ''0'' @ show_nat n"

text \<open>\<^verbatim>\<open>str.lower\<close> on ASCII letters.\<close>

definition lower_char :: "char \<Rightarrow> char" where
  "lower_char c =
     (case map_of (zip ''ABCDEFGHIJKLMNOPQRSTUVWXYZ'' ''abcdefghijklmnopqrstuvwxyz'') c of
        None \<Rightarrow> c
      | Some l \<Rightarrow> l)"

definition lower :: "string \<Rightarrow> string" where
  "lower s = map lower_char s"


text \<open>
  \<^verbatim>\<open>int(s)\<close> on text: the digit strings that the patterns capture convert; anything
  else that is not a run of digits is refused with \<open>ValueError\<close>.
\<close>

definition py_int :: "string \<Rightarrow> error + nat" where
  "py_int s = (if s \<noteq> [] \<and> list_all is_digit s then Inr (int_of_digits s) else Inl ValueError)"

text \<open>
  Iterating over a text file yields its lines, each with its terminating newline; a last
  line without a newline is yielded as it is.
\<close>

fun file_lines :: "string \<Rightarrow> string list" where
  "file_lines [] = []"
| "file_lines (c # s) =
     (if c = newline then [c] # file_lines s
      else (case file_lines s of
              [] \<Rightarrow> [[c]]
            | l # ls \<Rightarrow> (c # l) # ls))"

section \<open>Dates\<close>

text \<open>
  A \<^verbatim>\<open>datetime\<close> at midnight: proleptic Gregorian year, month and day.  The constructor
  validates its arguments and raises \<open>ValueError\<close> otherwise; years run from 1 to 9999.
\<close>

record datetime =
  year :: nat
  month :: nat
  day :: nat

definition is_leap :: "nat \<Rightarrow> bool" where
  "is_leap y = (y mod 4 = 0 \<and> (y mod 100 \<noteq> 0 \<or> y mod 400 = 0))"

definition days_in_month :: "nat \<Rightarrow> nat \<Rightarrow> nat" where
  "days_in_month y m =
     (if m = 2 then (if is_leap y then 29 else 28)
      else if m = 4 \<or> m = 6 \<or> m = 9 \<or> m = 11 then 30 else 31)"

definition valid_date :: "datetime \<Rightarrow> bool" where
  "valid_date dt =
     (1 \<le> year dt \<and> year dt \<le> 9999 \<and> 1 \<le> month dt \<and> month dt \<le> 12
      \<and> 1 \<le> day dt \<and> day dt \<le> days_in_month (year dt) (month dt))"

definition mk_datetime :: "nat \<Rightarrow> nat \<Rightarrow> nat \<Rightarrow> error + datetime" where
  "mk_datetime y m d =
     (let dt = \<lparr>year = y, month = m, day = d\<rparr>
      in if valid_date dt then Inr dt else Inl ValueError)"








text \<open>\<^verbatim>\<open>d.strftime('%Y-%m-%d')\<close>.\<close>

definition strftime_ymd :: "datetime \<Rightarrow> string" where
  "strftime_ymd dt = zero_pad 4 (year dt) @ ''-'' @ zero_pad 2 (month dt) @ ''-'' @ zero_pad 2 (day dt)"

section \<open>The point pattern\<close>

text \<open>
  \<^verbatim>\<open>re.match\<close> against
  \<^verbatim>\<open>^(\d+)-(\d+)-(\d+)\s*=\s*(\d+)\s*$\<close>.  The character classes that follow one another
  are disjoint, so the greedy left-to-right reading below is the only way the pattern can
  match; \<^verbatim>\<open>$\<close> also accepts the position before a final newline, which the trailing
  \<^verbatim>\<open>\s*\<close> already consumes.  The result is the text of the four digit groups.
\<close>

definition digits1 :: "string \<Rightarrow> (string \<times> string) option" where
  "digits1 s =
     (let d = takeWhile is_digit s
      in if d = [] then None else Some (d, dropWhile is_digit s))"

definition lit :: "char \<Rightarrow> string \<Rightarrow> string option" where
  "lit c s = (case s of [] \<Rightarrow> None | x # r \<Rightarrow> if x = c then Some r else None)"

definition match_point :: "string \<Rightarrow> (string \<times> string \<times> string \<times> string) option" where
  "match_point line =
     do {
       (y, r) \<leftarrow> digits1 line;
       r \<leftarrow> lit CHR ''-'' r;
       (m, r) \<leftarrow> digits1 r;
       r \<leftarrow> lit CHR ''-'' r;
       (d, r) \<leftarrow> digits1 r;
       r \<leftarrow> lit CHR ''='' (dropWhile is_space r);
       (n, r) \<leftarrow> digits1 (dropWhile is_space r);
       if dropWhile is_space r = [] then Some (y, m, d, n) else None
     }"

text \<open>
  The pattern of \<^verbatim>\<open>generate_estimated_trend\<close> (line 168) has the groups \<^verbatim>\<open>date\<close> and
  \<^verbatim>\<open>remaining\<close>; that of \<^verbatim>\<open>generate_trend\<close> (line 219) has \<^verbatim>\<open>year\<close>, \<^verbatim>\<open>month\<close>,
  \<^verbatim>\<open>day\<close> and \<^verbatim>\<open>remaining\<close>.
\<close>

definition match_estimate_pattern :: "string \<Rightarrow> (string \<times> string) option" where
  "match_estimate_pattern line =
     map_option (\<lambda>(y, m, d, n). (y @ ''-'' @ m @ ''-'' @ d, n)) (match_point line)"

definition match_trend_pattern :: "string \<Rightarrow> (string \<times> string \<times> string \<times> string) option" where
  "match_trend_pattern line = match_point line"

section \<open>The projection loop of \<^verbatim>\<open>generate_estimated_trend\<close>\<close>










section \<open>The gathering loop of \<^verbatim>\<open>generate_trend\<close>\<close>

text \<open>
  Lines 220 to 261.  \<^verbatim>\<open>time.mktime\<close> and \<^verbatim>\<open>strftime('%B %Y')\<close> depend on the time zone
  and the locale of the machine; they are parameters of the model.
\<close>

record 'x environment =
  mktime :: "datetime \<Rightarrow> 'x"
  month_year :: "datetime \<Rightarrow> string"

record 'x gathered =
  y_axis :: "nat list"
  x_axis :: "'x list"
  x_tick_vals :: "'x list"
  x_tick_text :: "string list"
  y_max :: nat
  status :: "string list"

definition gathered_init :: "'x gathered" where
  "gathered_init =
     \<lparr>y_axis = [], x_axis = [], x_tick_vals = [], x_tick_text = [], y_max = 0, status = []\<rparr>"

text \<open>\<^verbatim>\<open>xs[-k]\<close> for \<open>k \<ge> 1\<close>: the \<open>k\<close>-th element from the end, or \<open>IndexError\<close>.\<close>

definition from_end :: "'a list \<Rightarrow> nat \<Rightarrow> error + 'a" where
  "from_end xs k = (if 1 \<le> k \<and> k \<le> length xs then Inr (xs ! (length xs - k)) else Inl IndexError)"

definition next_status :: "string list \<Rightarrow> nat list \<Rightarrow> error + string" where
  "next_status sts ys =
     (if sts = [] then Inr ''start''
      else (case from_end ys 1 of Inl e \<Rightarrow> Inl e | Inr cur \<Rightarrow>
           (case from_end ys 2 of Inl e \<Rightarrow> Inl e | Inr prev \<Rightarrow>
              if cur < prev then Inr ''better''
              else if cur > prev then Inr ''worse''
              else Inr ''same'')))"

definition gather_step :: "'x environment \<Rightarrow> 'x gathered \<Rightarrow> string \<Rightarrow> error + 'x gathered" where
  "gather_step env g line =
     (case match_trend_pattern line of
        None \<Rightarrow> Inr g
      | Some (year_s, month_s, day_s, remaining_s) \<Rightarrow>
          (let remaining = int_of_digits remaining_s;
               g = g\<lparr>y_axis := y_axis g @ [remaining]\<rparr>;
               g = (if remaining > y_max g then g\<lparr>y_max := remaining\<rparr> else g)
           in case mk_datetime (int_of_digits year_s) (int_of_digits month_s) (int_of_digits day_s) of
                Inl e \<Rightarrow> Inl e
              | Inr date \<Rightarrow>
                  (let seconds = mktime env date;
                       g = g\<lparr>x_axis := x_axis g @ [seconds]\<rparr>;
                       g = (if month_year env date \<notin> set (x_tick_text g)
                            then g\<lparr>x_tick_text := x_tick_text g @ [month_year env date],
                                   x_tick_vals := x_tick_vals g @ [seconds]\<rparr>
                            else g)
                   in case next_status (status g) (y_axis g) of
                        Inl e \<Rightarrow> Inl e
                      | Inr s \<Rightarrow> Inr (g\<lparr>status := status g @ [s]\<rparr>))))"

fun gather_lines :: "'x environment \<Rightarrow> 'x gathered \<Rightarrow> string list \<Rightarrow> error + 'x gathered" where
  "gather_lines env g [] = Inr g"
| "gather_lines env g (line # rest) =
     (case gather_step env g line of
        Inl e \<Rightarrow> Inl e
      | Inr g' \<Rightarrow> gather_lines env g' rest)"

definition gather :: "'x environment \<Rightarrow> string \<Rightarrow> error + 'x gathered" where
  "gather env content = gather_lines env gathered_init (file_lines content)"

text \<open>
  The rule for the status of a point, as a predicate on the values and the statuses
  gathered so far: the first is \<open>start\<close>, each later one compares its value with the
  value just before it.
\<close>

definition status_rule :: "nat list \<Rightarrow> string list \<Rightarrow> bool" where
  "status_rule ys sts \<longleftrightarrow>
     length sts = length ys \<and>
     (\<forall>i<length ys. sts ! i =
        (if i = 0 then ''start''
         else if ys ! i < ys ! (i - 1) then ''better''
         else if ys ! i > ys ! (i - 1) then ''worse'' else ''same''))"

section \<open>Files\<close>

text \<open>
  The file system maps a path to the text of the file there.  \<^verbatim>\<open>os.path.join\<close> puts
  one separator between a directory and a name; a relative path is taken from the
  working directory.
\<close>

type_synonym files = "string \<rightharpoonup> string"

definition path_join :: "string \<Rightarrow> string \<Rightarrow> string" where
  "path_join dir name =
     (if dir = [] then name
      else if last dir = CHR ''/'' then dir @ name
      else dir @ ''/'' @ name)"

definition resolve :: "string \<Rightarrow> string \<Rightarrow> string" where
  "resolve cwd p = (case p of [] \<Rightarrow> cwd | c # _ \<Rightarrow> if c = CHR ''/'' then p else path_join cwd p)"

text \<open>
  The part of a \<^verbatim>\<open>ProjectTrend\<close> object that the modelled methods read: the directory of
  the script (\<^verbatim>\<open>self._path\<close>), the name of the board, the label and list definitions in
  the order of the dictionaries, and the working directory of the process.
\<close>

record project_trend =
  script_path :: string
  cwd :: string
  board_name :: string
  labels :: "(string \<times> string) list"
  lists :: "(string \<times> string) list"

definition trend_data :: "project_trend \<Rightarrow> string" where
  "trend_data self = path_join (script_path self) ''trend.dat''"





section \<open>Cards\<close>

text \<open>
  Values of the parsed JSON that the task board returns, and of the card dictionaries
  built from them.
\<close>

datatype pyval =
  PNone | PBool bool | PStr string | PDict "(string \<times> pyval) list"

fun truthy :: "pyval \<Rightarrow> bool" where
  "truthy PNone = False"
| "truthy (PBool b) = b"
| "truthy (PStr s) = (s \<noteq> [])"
| "truthy (PDict kvs) = (kvs \<noteq> [])"

text \<open>\<^verbatim>\<open>v[key]\<close>: only a dictionary can be subscripted by a string key.\<close>

fun subscript :: "pyval \<Rightarrow> string \<Rightarrow> error + pyval" where
  "subscript (PDict kvs) key = (case map_of kvs key of None \<Rightarrow> Inl KeyError | Some v \<Rightarrow> Inr v)"
| "subscript (PStr s) key = Inl TypeError"
| "subscript (PBool b) key = Inl TypeError"
| "subscript PNone key = Inl TypeError"

text \<open>
  A normalized card (lines 74 to 106) is a dictionary with the keys \<^verbatim>\<open>id\<close>, \<^verbatim>\<open>name\<close>,
  \<^verbatim>\<open>list\<close>, \<^verbatim>\<open>exclude\<close> and one key per custom field of the card.
\<close>

type_synonym card = "string \<rightharpoonup> pyval"

text \<open>
  Python numbers in the running total: it starts as the integer 0 and becomes a float
  with the first card.  Floating-point arithmetic is a parameter: the conversions
  \<^verbatim>\<open>float(v)\<close> of a JSON value and of an integer, the sum of two floats, and \<^verbatim>\<open>int(x)\<close>.
\<close>

record 'f float_ops =
  float_of_val :: "pyval \<Rightarrow> error + 'f"
  float_of_int :: "int \<Rightarrow> 'f"
  float_add :: "'f \<Rightarrow> 'f \<Rightarrow> 'f"
  int_of_float :: "'f \<Rightarrow> error + int"

datatype 'f number = PyInt int | PyFloat 'f

definition get_card_remaining_time :: "'f float_ops \<Rightarrow> card \<Rightarrow> error + 'f" where
  "get_card_remaining_time fl a_card =
     (case a_card ''exclude'' of
        None \<Rightarrow> Inl KeyError
      | Some exclude \<Rightarrow>
          if \<not> truthy exclude then
            (case a_card ''remaining'' of
               Some remaining \<Rightarrow>
                 (case subscript remaining ''number'' of
                    Inl e \<Rightarrow> Inl e
                  | Inr number \<Rightarrow> float_of_val fl number)
             | None \<Rightarrow> Inr (float_of_int fl 1))
          else Inr (float_of_int fl 0))"

text \<open>\<^verbatim>\<open>total_remaining += x\<close> for a float \<open>x\<close>.\<close>

fun add_float :: "'f float_ops \<Rightarrow> 'f number \<Rightarrow> 'f \<Rightarrow> 'f number" where
  "add_float fl (PyInt i) x = PyFloat (float_add fl (float_of_int fl i) x)"
| "add_float fl (PyFloat a) x = PyFloat (float_add fl a x)"

text \<open>Lines 120 to 122 of \<^verbatim>\<open>add_datapoint\<close>.\<close>

fun total_remaining :: "'f float_ops \<Rightarrow> 'f number \<Rightarrow> card list \<Rightarrow> error + 'f number" where
  "total_remaining fl tot [] = Inr tot"
| "total_remaining fl tot (a_card # cards) =
     (case get_card_remaining_time fl a_card of
        Inl e \<Rightarrow> Inl e
      | Inr x \<Rightarrow> total_remaining fl (add_float fl tot x) cards)"

fun int_of_number :: "'f float_ops \<Rightarrow> 'f number \<Rightarrow> error + int" where
  "int_of_number fl (PyInt i) = Inr i"
| "int_of_number fl (PyFloat x) = int_of_float fl x"

text \<open>
  Lines 124 to 126: the text appended for the date \<open>now\<close> and the integer \<open>tot\<close>, and
  the store after the append.  Opening for append creates a missing file, and happens
  before \<^verbatim>\<open>int(total_remaining)\<close> is evaluated.
\<close>

definition datapoint_text :: "datetime \<Rightarrow> int \<Rightarrow> string" where
  "datapoint_text now tot = [newline] @ strftime_ymd now @ '' = '' @ show_int tot"

definition append_text :: "files \<Rightarrow> string \<Rightarrow> string \<Rightarrow> files" where
  "append_text fs p text = fs(p \<mapsto> (case fs p of None \<Rightarrow> [] | Some old \<Rightarrow> old) @ text)"

definition add_datapoint ::
  "'f float_ops \<Rightarrow> project_trend \<Rightarrow> card list \<Rightarrow> datetime \<Rightarrow> files \<Rightarrow> (error + unit) \<times> files" where
  "add_datapoint fl self cards now fs =
     (case total_remaining fl (PyInt 0) cards of
        Inl e \<Rightarrow> (Inl e, fs)
      | Inr tot \<Rightarrow>
          (let p = resolve (cwd self) (trend_data self);
               fs = append_text fs p []
           in case int_of_number fl tot of
                Inl e \<Rightarrow> (Inl e, fs)
              | Inr n \<Rightarrow> (Inr (), append_text fs p (datapoint_text now n))))"


section \<open>The exclusion rule\<close>

text \<open>
  A card as the board service returns it: the ids of its labels and the id of its list.
  Lines 143 to 163.  The two search loops stop at the first entry whose lower-cased name
  is the wanted one, and leave \<open>None\<close> when there is none.
\<close>

record trello_card =
  card_id :: string
  card_name :: string
  idList :: string
  label_ids :: "string list"

fun first_id_named :: "string \<Rightarrow> (string \<times> string) list \<Rightarrow> string option" where
  "first_id_named wanted [] = None"
| "first_id_named wanted ((ident, name) # rest) =
     (if lower name = wanted then Some ident else first_id_named wanted rest)"

definition calculate_exclude :: "project_trend \<Rightarrow> trello_card \<Rightarrow> bool" where
  "calculate_exclude trend trello_card =
     (let exclude_label = first_id_named ''exclude'' (labels trend)
      in if list_ex (\<lambda>label. Some label = exclude_label) (label_ids trello_card) then True
         else (let complete_list = first_id_named ''complete'' (lists trend)
               in if Some (idList trello_card) = complete_list then True else False))"

section \<open>Example inputs\<close>

text \<open>
  A board, a machine and a renderer on which the statements below are evaluated: year,
  month and day in one number for the time axis, a renderer that refuses an empty series, and floats that
  are whole numbers.
\<close>

definition example_env :: "nat environment" where
  "example_env =
     \<lparr>mktime = (\<lambda>d. 10000 * year d + 100 * month d + day d),
      month_year = (\<lambda>d. show_nat (month d) @ '' '' @ show_nat (year d))\<rparr>"


definition example_trend :: project_trend where
  "example_trend =
     \<lparr>script_path = ''/srv/trend'', cwd = ''/srv/work'', board_name = ''Board'',
      labels = [(''l1'', ''Bug''), (''l2'', ''Exclude''), (''l3'', ''EXCLUDE'')],
      lists = [(''s1'', ''To Do''), (''s2'', ''Complete'')]\<rparr>"

definition example_float_ops :: "int float_ops" where
  "example_float_ops =
     \<lparr>float_of_val = (\<lambda>v. case v of
                            PStr s \<Rightarrow> (case py_int s of Inl e \<Rightarrow> Inl e | Inr n \<Rightarrow> Inr (int n))
                          | PBool b \<Rightarrow> Inr (if b then 1 else 0)
                          | PNone \<Rightarrow> Inl TypeError
                          | PDict kvs \<Rightarrow> Inl TypeError),
      float_of_int = (\<lambda>i. i),
      float_add = (\<lambda>a b. a + b),
      int_of_float = (\<lambda>x. Inr x)\<rparr>"

text \<open>
  Three normalized cards: one without a \<^verbatim>\<open>remaining\<close> field, one with 3 days remaining,
  and an excluded one.
\<close>

definition example_card_plain :: card where
  "example_card_plain = [''id'' \<mapsto> PStr ''c1'', ''name'' \<mapsto> PStr ''Write'', ''list'' \<mapsto> PStr ''s1'',
              ''exclude'' \<mapsto> PBool False]"

definition example_card_sized :: card where
  "example_card_sized = [''id'' \<mapsto> PStr ''c2'', ''name'' \<mapsto> PStr ''Build'', ''list'' \<mapsto> PStr ''s1'',
              ''exclude'' \<mapsto> PBool False, ''remaining'' \<mapsto> PDict [(''number'', PStr ''3'')]]"

definition example_card_done :: card where
  "example_card_done = [''id'' \<mapsto> PStr ''c3'', ''name'' \<mapsto> PStr ''Ship'', ''list'' \<mapsto> PStr ''s2'',
              ''exclude'' \<mapsto> PBool True, ''remaining'' \<mapsto> PDict [(''number'', PStr ''5'')]]"

section \<open>Calendar arithmetic\<close>












section \<open>The projection loop: one pass, and the whole run\<close>











section \<open>Claims about the projection\<close>




lemmas eval_match =
  match_estimate_pattern_def match_trend_pattern_def match_point_def digits1_def lit_def
  is_digit_def is_space_def newline_def int_of_digits_def digit_val_def








section \<open>Decimal numerals\<close>

lemma less_10_cases: "(n::nat) < 10 \<Longrightarrow> n \<in> {0, 1, 2, 3, 4, 5, 6, 7, 8, 9}"
  by auto


lemma digit_val_digit_char: "n < 10 \<Longrightarrow> digit_val (digit_char n) = n"
  using less_10_cases[of n] by (auto simp: digit_val_def digit_char_def)


lemma separators [simp]:
  "\<not> is_digit CHR ''-''" "\<not> is_digit CHR ''=''" "\<not> is_digit CHR '' ''" "\<not> is_digit newline"
  "\<not> is_space CHR ''=''" "\<not> is_space CHR ''-''" "is_space CHR '' ''" "is_space newline"
  by (simp_all add: is_digit_def is_space_def newline_def)


lemma int_of_digits_snoc: "int_of_digits (s @ [c]) = 10 * int_of_digits s + digit_val c"
  by (simp add: int_of_digits_def)

lemma int_of_digits_show_nat: "int_of_digits (show_nat n) = n"
proof (induction n rule: show_nat.induct)
  case (1 n)
  show ?case
  proof (cases "n < 10")
    case True
    then show ?thesis
      by (subst show_nat.simps) (simp add: int_of_digits_def digit_val_digit_char)
  next
    case False
    then have "int_of_digits (show_nat (n div 10)) = n div 10" using 1 by simp
    then show ?thesis using False
      by (subst show_nat.simps) (simp add: int_of_digits_snoc digit_val_digit_char)
  qed
qed

lemma int_of_digits_zeros: "int_of_digits (replicate k CHR ''0'' @ s) = int_of_digits s"
proof -
  have "foldl (\<lambda>acc c. 10 * acc + digit_val c) 0 (replicate k CHR ''0'') = 0"
    by (induction k) (simp_all add: digit_val_def)
  then show ?thesis by (simp add: int_of_digits_def)
qed


lemma int_of_digits_zero_pad: "int_of_digits (zero_pad w n) = n"
  by (simp add: zero_pad_def int_of_digits_zeros int_of_digits_show_nat)

lemma show_int_nonneg: "0 \<le> i \<Longrightarrow> show_int i = show_nat (nat i)"
  by (simp add: show_int_def)

section \<open>The language of the point pattern\<close>










section \<open>Lines of a store\<close>

















section \<open>Claims about the stores\<close>






section \<open>The gathering loop: skipped lines and statuses\<close>

lemma gather_step_skip: "match_trend_pattern l = None \<Longrightarrow> gather_step env g l = Inr g"
  by (simp add: gather_step_def)


lemma gather_step_match:
  assumes "match_trend_pattern l = Some (ys, ms, ds, ns)" and "gather_step env g l = Inr g'"
  shows "y_axis g' = y_axis g @ [int_of_digits ns]
       \<and> (\<exists>s. next_status (status g) (y_axis g @ [int_of_digits ns]) = Inr s
              \<and> status g' = status g @ [s])"
  using assms by (auto simp: gather_step_def Let_def split: sum.splits if_splits)

lemma next_status_value:
  assumes "length sts = length ys"
  shows "next_status sts (ys @ [n]) =
     Inr (if ys = [] then ''start''
          else if n < last ys then ''better''
          else if n > last ys then ''worse'' else ''same'')"
proof (cases "ys = []")
  case True
  then show ?thesis using assms by (simp add: next_status_def)
next
  case False
  then have "sts \<noteq> []" using assms by auto
  moreover have "from_end (ys @ [n]) 1 = Inr n" by (simp add: from_end_def)
  moreover have "from_end (ys @ [n]) 2 = Inr (last ys)"
  proof -
    have "2 \<le> length (ys @ [n])" using False by (cases ys) auto
    moreover have "(ys @ [n]) ! (length (ys @ [n]) - 2) = last ys"
      using False by (simp add: nth_append last_conv_nth)
    ultimately show ?thesis by (simp add: from_end_def)
  qed
  ultimately show ?thesis using False by (simp add: next_status_def)
qed

lemma status_rule_snoc:
  assumes "status_rule ys sts"
  shows "status_rule (ys @ [n])
     (sts @ [if ys = [] then ''start''
             else if n < last ys then ''better''
             else if n > last ys then ''worse'' else ''same''])"
proof -
  have len: "length sts = length ys" using assms by (simp add: status_rule_def)
  have old: "sts ! i =
        (if i = 0 then ''start''
         else if ys ! i < ys ! (i - 1) then ''better''
         else if ys ! i > ys ! (i - 1) then ''worse'' else ''same'')" if "i < length ys" for i
    using assms that by (simp add: status_rule_def)
  show ?thesis
    unfolding status_rule_def
  proof (intro conjI allI impI)
    show "length (sts @ [if ys = [] then ''start''
             else if n < last ys then ''better''
             else if n > last ys then ''worse'' else ''same'']) = length (ys @ [n])"
      using len by simp
  next
    fix i assume i: "i < length (ys @ [n])"
    show "(sts @ [if ys = [] then ''start''
             else if n < last ys then ''better''
             else if n > last ys then ''worse'' else ''same'']) ! i =
        (if i = 0 then ''start''
         else if (ys @ [n]) ! i < (ys @ [n]) ! (i - 1) then ''better''
         else if (ys @ [n]) ! i > (ys @ [n]) ! (i - 1) then ''worse'' else ''same'')"
    proof (cases "i < length ys")
      case True
      then have "i - Suc 0 < length ys" by simp
      then show ?thesis using old[OF True] len True by (simp add: nth_append)
    next
      case False
      then have e: "i = length ys" using i by simp
      show ?thesis
      proof (cases "ys = []")
        case True
        then show ?thesis using e len by simp
      next
        case ne: False
        then have "last ys = ys ! (length ys - 1)" by (simp add: last_conv_nth)
        then show ?thesis using e len ne by (simp add: nth_append)
      qed
    qed
  qed
qed

lemma gather_lines_invariant:
  "status_rule (y_axis g) (status g) \<Longrightarrow> gather_lines env g ls = Inr g' \<Longrightarrow>
   status_rule (y_axis g') (status g')
   \<and> y_axis g' = y_axis g @ map (\<lambda>p. int_of_digits (snd (snd (snd p))))
                              (List.map_filter match_trend_pattern ls)"
proof (induction ls arbitrary: g)
  case Nil
  then show ?case by simp
next
  case (Cons l ls)
  from Cons.prems(2) obtain g1 where g1: "gather_step env g l = Inr g1"
    and rest: "gather_lines env g1 ls = Inr g'"
    by (auto split: sum.splits)
  show ?case
  proof (cases "match_trend_pattern l")
    case None
    then have "g1 = g" using g1 by (simp add: gather_step_skip)
    then have r: "gather_lines env g ls = Inr g'" using rest by simp
    note ih = Cons.IH[OF Cons.prems(1) r]
    have a: "status_rule (y_axis g') (status g')" by (rule conjunct1[OF ih])
    have b: "y_axis g' = y_axis g @ map (\<lambda>p. int_of_digits (snd (snd (snd p))))
                              (List.map_filter match_trend_pattern ls)"
      by (rule conjunct2[OF ih])
    show ?thesis
    proof (intro conjI)
      show "status_rule (y_axis g') (status g')" by (rule a)
      show "y_axis g' = y_axis g @ map (\<lambda>p. int_of_digits (snd (snd (snd p))))
                              (List.map_filter match_trend_pattern (l # ls))"
        using b None by simp
    qed
  next
    case (Some p)
    obtain ys ms ds ns where p: "p = (ys, ms, ds, ns)" by (cases p) auto
    have len: "length (status g) = length (y_axis g)"
      using Cons.prems(1) by (simp add: status_rule_def)
    from gather_step_match[OF Some[unfolded p] g1] obtain s where
      y1: "y_axis g1 = y_axis g @ [int_of_digits ns]"
      and s: "next_status (status g) (y_axis g @ [int_of_digits ns]) = Inr s"
      and s1: "status g1 = status g @ [s]" by blast
    have "status_rule (y_axis g1) (status g1)"
      using status_rule_snoc[OF Cons.prems(1), of "int_of_digits ns"] s
      unfolding y1 s1 next_status_value[OF len] by simp
    note ih = Cons.IH[OF this rest]
    have a: "status_rule (y_axis g') (status g')" by (rule conjunct1[OF ih])
    have b: "y_axis g' = y_axis g1 @ map (\<lambda>p. int_of_digits (snd (snd (snd p))))
                              (List.map_filter match_trend_pattern ls)"
      by (rule conjunct2[OF ih])
    show ?thesis
    proof (intro conjI)
      show "status_rule (y_axis g') (status g')" by (rule a)
      show "y_axis g' = y_axis g @ map (\<lambda>p. int_of_digits (snd (snd (snd p))))
                              (List.map_filter match_trend_pattern (l # ls))"
        using b y1 Some p by simp
    qed
  qed
qed

lemma status_rule_init: "status_rule (y_axis gathered_init) (status gathered_init)"
  by (simp add: status_rule_def gathered_init_def)

lemmas eval_gather =
  gather_def gather_step_def next_status_def from_end_def gathered_init_def Let_def
  mk_datetime_def valid_date_def days_in_month_def is_leap_def

lemma example_gather:
  "gather example_env (''2024-01-01 = 10'' @ [newline] @ ''2024-01-08 = 6'' @ [newline] @ ''2024-01-15 = 6'')
   = Inr \<lparr>y_axis = [10, 6, 6], x_axis = [20240101, 20240108, 20240115],
          x_tick_vals = [20240101], x_tick_text = [''1 2024''], y_max = 10,
          status = [''start'', ''better'', ''same'']\<rparr>"
  by (simp add: eval_gather eval_match example_env_def show_nat.simps digit_char_def)

section \<open>Claims about reading the stores\<close>

text \<open>
  C6.  In the series that \<^verbatim>\<open>generate_trend\<close> gathers, the status of the first point is
  \<open>start\<close>; the status of every later point is \<open>better\<close> when its value is less than
  the value of the point just before it, \<open>worse\<close> when it is greater and \<open>same\<close> when
  they are equal, whatever the earlier points are.  The values are those of the matching
  lines, in the order of the file.
\<close>

theorem status_compares_with_previous_point:
  assumes "gather env content = Inr g"
  shows "length (status g) = length (y_axis g)
       \<and> (\<forall>i<length (y_axis g). status g ! i =
            (if i = 0 then ''start''
             else if y_axis g ! i < y_axis g ! (i - 1) then ''better''
             else if y_axis g ! i > y_axis g ! (i - 1) then ''worse'' else ''same''))
       \<and> y_axis g = map (\<lambda>p. int_of_digits (snd (snd (snd p))))
                       (List.map_filter match_trend_pattern (file_lines content))"
proof -
  have run: "gather_lines env gathered_init (file_lines content) = Inr g"
    using assms by (simp add: gather_def)
  note inv = gather_lines_invariant[OF status_rule_init run]
  have "status_rule (y_axis g) (status g)" by (rule conjunct1[OF inv])
  moreover have "y_axis g = map (\<lambda>p. int_of_digits (snd (snd (snd p))))
                       (List.map_filter match_trend_pattern (file_lines content))"
    using conjunct2[OF inv] by (simp add: gathered_init_def)
  ultimately show ?thesis unfolding status_rule_def by blast
qed

text \<open>The example of the specification: the values 10, 6, 6.\<close>

theorem status_compares_with_previous_point_witness:
  "\<exists>g. gather example_env
         (''2024-01-01 = 10'' @ [newline] @ ''2024-01-08 = 6'' @ [newline] @ ''2024-01-15 = 6'') = Inr g
       \<and> y_axis g = [10, 6, 6] \<and> status g = [''start'', ''better'', ''same'']"
proof -
  let ?G = "\<lparr>y_axis = [10, 6, 6], x_axis = [20240101, 20240108, 20240115],
          x_tick_vals = [20240101], x_tick_text = [''1 2024''], y_max = 10,
          status = [''start'', ''better'', ''same'']\<rparr> :: nat gathered"
  note t = status_compares_with_previous_point[OF example_gather]
  have "length (status ?G) = length (y_axis ?G)" using t by blast
  then have "y_axis ?G = [10, 6, 6] \<and> status ?G = [''start'', ''better'', ''same'']" by simp
  then show ?thesis using example_gather by blast
qed



section \<open>Resolving a name, and the remaining time\<close>

lemma first_id_named_None:
  "first_id_named w m = None \<longleftrightarrow> (\<forall>p\<in>set m. lower (snd p) \<noteq> w)"
proof (induction m)
  case Nil
  then show ?case by simp
next
  case (Cons a m)
  obtain j n where a: "a = (j, n)" by (cases a) auto
  show ?case using Cons unfolding a by (cases "lower n = w") simp_all
qed

lemma first_id_named_Some:
  "first_id_named w m = Some i \<longleftrightarrow>
     (\<exists>pre name post. m = pre @ (i, name) # post \<and> lower name = w
        \<and> (\<forall>p\<in>set pre. lower (snd p) \<noteq> w))"
proof (induction m)
  case Nil
  then show ?case by simp
next
  case (Cons a m)
  obtain j n where a: "a = (j, n)" by (cases a) auto
  show ?case
  proof (cases "lower n = w")
    case True
    have "(\<exists>pre name post. (j, n) # m = pre @ (i, name) # post \<and> lower name = w
        \<and> (\<forall>p\<in>set pre. lower (snd p) \<noteq> w)) \<longleftrightarrow> j = i"
    proof
      assume "\<exists>pre name post. (j, n) # m = pre @ (i, name) # post \<and> lower name = w
        \<and> (\<forall>p\<in>set pre. lower (snd p) \<noteq> w)"
      then obtain pre name post where d: "(j, n) # m = pre @ (i, name) # post"
        and p: "\<forall>p\<in>set pre. lower (snd p) \<noteq> w" by blast
      show "j = i"
      proof (cases pre)
        case Nil
        then show ?thesis using d by simp
      next
        case (Cons b pre')
        then have "b = (j, n)" using d by simp
        then show ?thesis using p Cons True by simp
      qed
    next
      assume "j = i"
      then have "(j, n) # m = [] @ (i, n) # m" by simp
      then show "\<exists>pre name post. (j, n) # m = pre @ (i, name) # post \<and> lower name = w
        \<and> (\<forall>p\<in>set pre. lower (snd p) \<noteq> w)"
        using True by (metis empty_iff list.set(1))
    qed
    then show ?thesis using True a by simp
  next
    case False
    have "(\<exists>pre name post. (j, n) # m = pre @ (i, name) # post \<and> lower name = w
        \<and> (\<forall>p\<in>set pre. lower (snd p) \<noteq> w))
      \<longleftrightarrow> (\<exists>pre name post. m = pre @ (i, name) # post \<and> lower name = w
        \<and> (\<forall>p\<in>set pre. lower (snd p) \<noteq> w))"
    proof
      assume "\<exists>pre name post. (j, n) # m = pre @ (i, name) # post \<and> lower name = w
        \<and> (\<forall>p\<in>set pre. lower (snd p) \<noteq> w)"
      then obtain pre name post where d: "(j, n) # m = pre @ (i, name) # post"
        and l: "lower name = w" and p: "\<forall>p\<in>set pre. lower (snd p) \<noteq> w" by blast
      show "\<exists>pre name post. m = pre @ (i, name) # post \<and> lower name = w
        \<and> (\<forall>p\<in>set pre. lower (snd p) \<noteq> w)"
      proof (cases pre)
        case Nil
        then show ?thesis using d l False by simp
      next
        case (Cons b pre')
        then have "m = pre' @ (i, name) # post" using d by simp
        moreover have "\<forall>p\<in>set pre'. lower (snd p) \<noteq> w" using p Cons by simp
        ultimately show ?thesis using l by blast
      qed
    next
      assume "\<exists>pre name post. m = pre @ (i, name) # post \<and> lower name = w
        \<and> (\<forall>p\<in>set pre. lower (snd p) \<noteq> w)"
      then obtain pre name post where d: "m = pre @ (i, name) # post"
        and l: "lower name = w" and p: "\<forall>p\<in>set pre. lower (snd p) \<noteq> w" by blast
      have "(j, n) # m = ((j, n) # pre) @ (i, name) # post" using d by simp
      moreover have "\<forall>p\<in>set ((j, n) # pre). lower (snd p) \<noteq> w" using p False by simp
      ultimately show "\<exists>pre name post. (j, n) # m = pre @ (i, name) # post \<and> lower name = w
        \<and> (\<forall>p\<in>set pre. lower (snd p) \<noteq> w)"
        using l by blast
    qed
    then show ?thesis using False a Cons by simp
  qed
qed

lemma calculate_exclude_iff:
  "calculate_exclude trend c \<longleftrightarrow>
     (\<exists>i\<in>set (label_ids c). first_id_named ''exclude'' (labels trend) = Some i)
     \<or> first_id_named ''complete'' (lists trend) = Some (idList c)"
proof -
  have le: "list_ex (\<lambda>label. Some label = x) ls \<longleftrightarrow> (\<exists>i\<in>set ls. x = Some i)" for x ls
    unfolding list_ex_iff by metis
  show ?thesis by (auto simp: calculate_exclude_def Let_def le)
qed

section \<open>Claims about cards\<close>

text \<open>
  C3.  \<^verbatim>\<open>_calculate_exclude\<close> returns true exactly when the card carries the label id
  resolved for the name \<open>exclude\<close>, or its list id is the one resolved for the name
  \<open>complete\<close>.  The id resolved for a name is that of the first entry of the mapping
  whose lower-cased name is the wanted one.  When no label has the name the label check
  never holds, when no list has the name the list check never holds, and when neither
  exists no card is excluded.
\<close>

theorem exclude_iff_resolved_label_or_list:
  "(calculate_exclude trend c \<longleftrightarrow>
      (\<exists>i\<in>set (label_ids c). first_id_named ''exclude'' (labels trend) = Some i)
      \<or> first_id_named ''complete'' (lists trend) = Some (idList c))
   \<and> (first_id_named w m = Some i \<longleftrightarrow>
        (\<exists>pre name post. m = pre @ (i, name) # post \<and> lower name = w
           \<and> (\<forall>p\<in>set pre. lower (snd p) \<noteq> w)))
   \<and> ((\<forall>p\<in>set (labels trend). lower (snd p) \<noteq> ''exclude'') \<longrightarrow>
        (calculate_exclude trend c \<longleftrightarrow>
           first_id_named ''complete'' (lists trend) = Some (idList c)))
   \<and> ((\<forall>p\<in>set (lists trend). lower (snd p) \<noteq> ''complete'') \<longrightarrow>
        (calculate_exclude trend c \<longleftrightarrow>
           (\<exists>i\<in>set (label_ids c). first_id_named ''exclude'' (labels trend) = Some i)))
   \<and> ((\<forall>p\<in>set (labels trend). lower (snd p) \<noteq> ''exclude'')
        \<and> (\<forall>p\<in>set (lists trend). lower (snd p) \<noteq> ''complete'')
        \<longrightarrow> \<not> calculate_exclude trend c)"
proof -
  have a: "first_id_named ''exclude'' (labels trend) = None"
    if "\<forall>p\<in>set (labels trend). lower (snd p) \<noteq> ''exclude''"
    using that by (simp add: first_id_named_None)
  have b: "first_id_named ''complete'' (lists trend) = None"
    if "\<forall>p\<in>set (lists trend). lower (snd p) \<noteq> ''complete''"
    using that by (simp add: first_id_named_None)
  show ?thesis
    using calculate_exclude_iff[of trend c] first_id_named_Some[of w m i] a b
    by (intro conjI impI) simp_all
qed

lemma example_resolved:
  "first_id_named ''exclude'' (labels example_trend) = Some ''l2''"
  "first_id_named ''complete'' (lists example_trend) = Some ''s2''"
  by (simp_all add: example_trend_def lower_def lower_char_def)

theorem exclude_iff_resolved_label_or_list_witness:
  "calculate_exclude example_trend
     \<lparr>card_id = ''c1'', card_name = ''Ship it'', idList = ''s1'', label_ids = [''l1'', ''l2'']\<rparr>
   \<and> calculate_exclude example_trend
     \<lparr>card_id = ''c2'', card_name = ''Done'', idList = ''s2'', label_ids = []\<rparr>
   \<and> \<not> calculate_exclude example_trend
     \<lparr>card_id = ''c3'', card_name = ''Open'', idList = ''s1'', label_ids = [''l1'', ''l3'']\<rparr>
   \<and> \<not> calculate_exclude (example_trend\<lparr>labels := [(''l1'', ''Bug'')], lists := [(''s1'', ''To Do'')]\<rparr>)
     \<lparr>card_id = ''c1'', card_name = ''Ship it'', idList = ''s1'', label_ids = [''l1'', ''l2'']\<rparr>"
proof -
  let ?bare = "example_trend\<lparr>labels := [(''l1'', ''Bug'')], lists := [(''s1'', ''To Do'')]\<rparr>"
  have n: "(\<forall>p\<in>set (labels ?bare). lower (snd p) \<noteq> ''exclude'')
        \<and> (\<forall>p\<in>set (lists ?bare). lower (snd p) \<noteq> ''complete'')"
    by (simp add: lower_def lower_char_def)
  show ?thesis
    using exclude_iff_resolved_label_or_list[of example_trend
        "\<lparr>card_id = ''c1'', card_name = ''Ship it'', idList = ''s1'', label_ids = [''l1'', ''l2'']\<rparr>"]
      exclude_iff_resolved_label_or_list[of example_trend
        "\<lparr>card_id = ''c2'', card_name = ''Done'', idList = ''s2'', label_ids = []\<rparr>"]
      exclude_iff_resolved_label_or_list[of example_trend
        "\<lparr>card_id = ''c3'', card_name = ''Open'', idList = ''s1'', label_ids = [''l1'', ''l3'']\<rparr>"]
      exclude_iff_resolved_label_or_list[of ?bare
        "\<lparr>card_id = ''c1'', card_name = ''Ship it'', idList = ''s1'', label_ids = [''l1'', ''l2'']\<rparr>"]
      n
    by (simp add: example_resolved)
qed

lemma total_remaining_fold:
  "(\<forall>c\<in>set cards. get_card_remaining_time fl c = Inr (x c)) \<Longrightarrow>
   total_remaining fl acc cards = Inr (foldl (add_float fl) acc (map x cards))"
  by (induction cards arbitrary: acc) simp_all

text \<open>
  C4.  For a normalized card the remaining time is \<open>float(0)\<close> when its \<^verbatim>\<open>exclude\<close>
  entry is true; otherwise the float value of the \<^verbatim>\<open>number\<close> entry of its
  \<^verbatim>\<open>remaining\<close> field when it has one; otherwise \<open>float(1)\<close>.  The total of a run is
  the running sum of these values over the cards, in order, starting from the integer 0.
\<close>

theorem remaining_time_of_a_card:
  assumes "a_card ''exclude'' = Some e"
  shows "(truthy e \<longrightarrow> get_card_remaining_time fl a_card = Inr (float_of_int fl 0))
       \<and> (\<not> truthy e \<and> a_card ''remaining'' = Some r \<and> subscript r ''number'' = Inr v \<longrightarrow>
            get_card_remaining_time fl a_card = float_of_val fl v)
       \<and> (\<not> truthy e \<and> a_card ''remaining'' = None \<longrightarrow>
            get_card_remaining_time fl a_card = Inr (float_of_int fl 1))
       \<and> ((\<forall>c\<in>set cards. get_card_remaining_time fl c = Inr (x c)) \<longrightarrow>
            total_remaining fl (PyInt 0) cards =
              Inr (foldl (add_float fl) (PyInt 0) (map x cards)))"
  using assms total_remaining_fold[of cards fl x "PyInt 0"]
  by (simp add: get_card_remaining_time_def)

lemma example_card_values:
  "get_card_remaining_time example_float_ops example_card_plain = Inr 1"
  "get_card_remaining_time example_float_ops example_card_sized = Inr 3"
  "get_card_remaining_time example_float_ops example_card_done = Inr 0"
  by (simp_all add: get_card_remaining_time_def example_card_plain_def example_card_sized_def example_card_done_def
      example_float_ops_def py_int_def is_digit_def int_of_digits_def digit_val_def)

theorem remaining_time_of_a_card_witness:
  "get_card_remaining_time example_float_ops example_card_plain = Inr 1
   \<and> get_card_remaining_time example_float_ops example_card_sized = Inr 3
   \<and> get_card_remaining_time example_float_ops example_card_done = Inr 0
   \<and> total_remaining example_float_ops (PyInt 0) [example_card_plain, example_card_sized, example_card_done] = Inr (PyFloat 4)"
proof -
  let ?x = "\<lambda>c. case get_card_remaining_time example_float_ops c of Inr v \<Rightarrow> v | Inl err \<Rightarrow> 0"
  have e: "example_card_sized ''exclude'' = Some (PBool False)" by (simp add: example_card_sized_def)
  have a: "\<forall>c\<in>set [example_card_plain, example_card_sized, example_card_done].
      get_card_remaining_time example_float_ops c = Inr (?x c)"
    by (simp add: example_card_values)
  have f: "foldl (add_float example_float_ops) (PyInt 0) (map ?x [example_card_plain, example_card_sized, example_card_done])
      = PyFloat 4"
    by (simp add: example_card_values) (simp add: example_float_ops_def)
  show ?thesis
    using remaining_time_of_a_card[where a_card = example_card_sized and e = "PBool False"
        and fl = example_float_ops and r = "PDict [(''number'', PStr ''3'')]" and v = "PStr ''3''"
        and cards = "[example_card_plain, example_card_sized, example_card_done]" and x = ?x, OF e] a
    by (simp only: f example_card_values)
qed

end
